theory Spec2Isabelle
  imports Main
begin

section \<open>Exceptions\<close>

text \<open>
  A Python exception is modelled by its class and its arguments. The messages of the
  sources are f-strings; a piece of a message is literal text or the
  \<^verbatim>\<open>repr\<close> of a string (\<^verbatim>\<open>{value!r}\<close>), kept unrendered. An integer
  argument is the exit code of \<^verbatim>\<open>SystemExit\<close>.
\<close>

datatype exc_class =
    BaseException
  | Exception
  | SystemExit
  | ValueError
  | AssertionError
  | OSError
  | ParseError
  | ParseVersionError
  | ClinicError
  | ClinicErrorSubclass string

datatype fpart = Str string | Repr string | Num int

datatype exn = Exn (cls: exc_class) (exc_args: "fpart list")



section \<open>Option groups (clinic/option\_groups.py)\<close>

text \<open>
  A parameter tuple is a list of parameters; the parameter type is left open.
  A group is a list of parameters, so it can be traversed again each time the left
  generator is restarted. A generator is modelled by the list of the values it
  yields, in order.
\<close>

type_synonym 'p ParamTuple = "'p list"

text \<open>
  The loop of \<^verbatim>\<open>permute_left_option_groups\<close>:
  \<^verbatim>\<open>for group in reversed(l): accumulator = list(group) + accumulator; yield tuple(accumulator)\<close>
\<close>

fun left_loop :: "'p list list \<Rightarrow> 'p list \<Rightarrow> 'p ParamTuple list" where
  "left_loop [] accumulator = []"
| "left_loop (grp # groups) accumulator =
     (grp @ accumulator) # left_loop groups (grp @ accumulator)"

definition permute_left_option_groups :: "'p list list \<Rightarrow> 'p ParamTuple list" where
  "permute_left_option_groups l = [] # left_loop (rev l) []"

text \<open>
  The loop of \<^verbatim>\<open>permute_right_option_groups\<close>:
  \<^verbatim>\<open>for group in l: accumulator.extend(group); yield tuple(accumulator)\<close>
\<close>

fun right_loop :: "'p list list \<Rightarrow> 'p list \<Rightarrow> 'p ParamTuple list" where
  "right_loop [] accumulator = []"
| "right_loop (grp # groups) accumulator =
     (accumulator @ grp) # right_loop groups (accumulator @ grp)"

definition permute_right_option_groups :: "'p list list \<Rightarrow> 'p ParamTuple list" where
  "permute_right_option_groups l = [] # right_loop l []"

text \<open>
  The nested loops of \<^verbatim>\<open>permute_optional_groups\<close> thread the pair
  (\<^verbatim>\<open>accumulator\<close>, \<^verbatim>\<open>counts\<close>). The inner loop runs over the left
  permutations for one right permutation \<open>r\<close>; the outer loop runs over the right
  permutations and restarts the left generator each time.
\<close>

fun inner_loop ::
  "'p list \<Rightarrow> 'p ParamTuple \<Rightarrow> 'p ParamTuple list \<Rightarrow>
   'p ParamTuple list \<times> nat set \<Rightarrow> 'p ParamTuple list \<times> nat set" where
  "inner_loop required r [] st = st"
| "inner_loop required r (l # ls) (accumulator, counts) =
     (let t = l @ required @ r in
      if length t \<in> counts then inner_loop required r ls (accumulator, counts)
      else inner_loop required r ls (accumulator @ [t], insert (length t) counts))"

fun outer_loop ::
  "'p list list \<Rightarrow> 'p list \<Rightarrow> 'p ParamTuple list \<Rightarrow>
   'p ParamTuple list \<times> nat set \<Rightarrow> 'p ParamTuple list \<times> nat set" where
  "outer_loop left required [] st = st"
| "outer_loop left required (r # rs) st =
     outer_loop left required rs
       (inner_loop required r (permute_left_option_groups left) st)"

text \<open>
  \<^verbatim>\<open>accumulator.sort(key=len)\<close> is a stable sort on the length, as
  \<^const>\<open>sort_key\<close> is.
\<close>

definition permute_optional_groups ::
  "'p list list \<Rightarrow> 'p list \<Rightarrow> 'p list list \<Rightarrow> exn + 'p ParamTuple list" where
  "permute_optional_groups left required right =
     (if required = [] \<and> left \<noteq> []
      then Inl (Exn ValueError [Str ''required is empty but left is not''])
      else Inr (sort_key length
             (fst (outer_loop left required (permute_right_option_groups right) ([], {})))))"

text \<open>
  The order in which the nested loops visit the combinations, written without the
  generators: for each number \<open>j\<close> of right groups taken from the front (ascending),
  for each number \<open>i\<close> of left groups taken from the back (ascending), the
  concatenation of those left groups, the required parameters and those right groups.
\<close>

definition visit_order :: "'p list list \<Rightarrow> 'p list \<Rightarrow> 'p list list \<Rightarrow> 'p ParamTuple list" where
  "visit_order left required right =
     concat (map (\<lambda>j. map (\<lambda>i. concat (drop (length left - i) left) @ required @ concat (take j right))
                          [0..<Suc (length left)])
                 [0..<Suc (length right)])"

text \<open>
  Keeping, from a sequence of tuples, each tuple whose length has not been seen
  before, after the tuples already kept in \<open>acc\<close>.
\<close>

fun keep_first :: "'a list list \<Rightarrow> 'a list list \<Rightarrow> 'a list list" where
  "keep_first acc [] = acc"
| "keep_first acc (t # ts) =
     (if length t \<in> length ` set acc then keep_first acc ts else keep_first (acc @ [t]) ts)"

section \<open>Lexer (libclinic/parser.py)\<close>

text \<open>
  A \<^verbatim>\<open>str\<close> is a list of code points; the model covers the code points
  below 256. \<^verbatim>\<open>Token\<close> is the named tuple of a kind and a value, both strings.
\<close>

datatype Token = Token (token_kind: string) (token_value: string)

text \<open>
  The character classes of the token patterns. \<^verbatim>\<open>.\<close> matches every
  character but the newline. \<^verbatim>\<open>\w\<close> in a \<^verbatim>\<open>str\<close> pattern matches
  the alphanumeric code points and the underscore; below 256 these are the ASCII
  digits and letters, \<open>_\<close>, and the Latin-1 letters and numerics listed.
\<close>

definition newline :: char where
  "newline = CHR 0x0A"

definition is_word_char :: "char \<Rightarrow> bool" where
  "is_word_char c =
     (let n = (of_char c :: nat) in
        (48 \<le> n \<and> n \<le> 57) \<or> (65 \<le> n \<and> n \<le> 90) \<or> n = 95 \<or> (97 \<le> n \<and> n \<le> 122)
      \<or> n = 170 \<or> n = 178 \<or> n = 179 \<or> n = 181 \<or> n = 185 \<or> n = 186
      \<or> (188 \<le> n \<and> n \<le> 190) \<or> (192 \<le> n \<and> n \<le> 214)
      \<or> (216 \<le> n \<and> n \<le> 246) \<or> (248 \<le> n \<and> n \<le> 255))"

text \<open>
  One function for each alternative of the regular expression: applied to the rest
  of the line, it returns the text the alternative matches at that position, if any.
  \<^verbatim>\<open>\(.*\)\<close> is greedy: after the opening parenthesis it runs to the last
  closing parenthesis before the next newline.
\<close>

definition match_ARROW :: "string \<Rightarrow> string option" where
  "match_ARROW s = (if take 2 s = ''->'' then Some ''->'' else None)"

definition match_CLONE :: "string \<Rightarrow> string option" where
  "match_CLONE s = (if take 1 s = ''='' then Some ''='' else None)"

definition match_ARGS :: "string \<Rightarrow> string option" where
  "match_ARGS s =
     (case s of
        [] \<Rightarrow> None
      | c # cs \<Rightarrow>
          if c \<noteq> CHR ''('' then None
          else let run = takeWhile (\<lambda>x. x \<noteq> newline) cs in
               if CHR '')'' \<in> set run
               then Some (c # rev (dropWhile (\<lambda>x. x \<noteq> CHR '')'') (rev run)))
               else None)"

definition match_WORD :: "string \<Rightarrow> string option" where
  "match_WORD s =
     (let w = takeWhile (\<lambda>x. is_word_char x \<or> x = CHR ''.'') s
      in if w = [] then None else Some w)"

definition match_SPACE :: "string \<Rightarrow> string option" where
  "match_SPACE s =
     (let w = takeWhile (\<lambda>x. x = CHR '' '') s
      in if w = [] then None else Some w)"

definition match_MISMATCH :: "string \<Rightarrow> string option" where
  "match_MISMATCH s =
     (case s of [] \<Rightarrow> None | c # cs \<Rightarrow> if c = newline then None else Some [c])"

text \<open>
  The alternatives in the order of \<^verbatim>\<open>token_specification\<close>; the joined
  pattern takes the first alternative that matches at a position, and
  \<^verbatim>\<open>mo.lastgroup\<close> is its name.
\<close>

definition token_specification :: "(string \<times> (string \<Rightarrow> string option)) list" where
  "token_specification =
     [(''ARROW'', match_ARROW),
      (''CLONE'', match_CLONE),
      (''ARGS'', match_ARGS),
      (''WORD'', match_WORD),
      (''SPACE'', match_SPACE),
      (''MISMATCH'', match_MISMATCH)]"

fun first_alternative ::
  "(string \<times> (string \<Rightarrow> string option)) list \<Rightarrow> string \<Rightarrow> (string \<times> string) option" where
  "first_alternative [] s = None"
| "first_alternative ((k, m) # alts) s =
     (case m s of Some v \<Rightarrow> Some (k, v) | None \<Rightarrow> first_alternative alts s)"

definition match_at :: "string \<Rightarrow> (string \<times> string) option" where
  "match_at s = first_alternative token_specification s"

text \<open>
  \<^verbatim>\<open>re.finditer\<close>: the matches from left to right, as pairs of group name
  and matched text. Where no alternative matches (at a newline) the scan moves one
  character on; after a match it resumes behind the match. No alternative matches
  the empty string.
\<close>

function finditer :: "string \<Rightarrow> (string \<times> string) list" where
  "finditer s =
     (if s = [] then []
      else case match_at s of
             None \<Rightarrow> finditer (tl s)
           | Some (k, v) \<Rightarrow> (k, v) # finditer (drop (length v) s))"
  by pat_completeness auto
termination
proof (relation "measure length")
  show "wf (measure length)" by simp
next
  fix s :: string
  assume "s \<noteq> []"
  thus "(tl s, s) \<in> measure length" by (cases s) simp_all
next
  fix s :: string and x2 :: "string \<times> string" and k v :: string
  assume "s \<noteq> []" and m: "match_at s = Some x2" and x: "(k, v) = x2"
  from m x have "v \<noteq> []"
    by (auto simp: match_at_def token_specification_def match_ARROW_def match_CLONE_def
      match_ARGS_def match_WORD_def match_SPACE_def match_MISMATCH_def Let_def
      split: option.splits if_splits list.splits)
  with \<open>s \<noteq> []\<close> show "(drop (length v) s, s) \<in> measure length"
    by (cases v; cases s) simp_all
qed

declare finditer.simps [simp del]

text \<open>
  \<^verbatim>\<open>tokenize\<close> is a generator: the model returns the tokens it yields, in
  order, and the exception that ends it, if one is raised.
\<close>

fun tokenize_loop :: "(string \<times> string) list \<Rightarrow> Token list \<times> exn option" where
  "tokenize_loop [] = ([], None)"
| "tokenize_loop ((kind, v) # ms) =
     (if kind = ''SPACE'' then tokenize_loop ms
      else if kind = ''MISMATCH''
      then ([], Some (Exn ParseError [Repr v, Str '' stray character in input'']))
      else (case tokenize_loop ms of (ts, e) \<Rightarrow> (Token kind v # ts, e)))"

definition tokenize :: "string \<Rightarrow> Token list \<times> exn option" where
  "tokenize line = tokenize_loop (finditer line)"

text \<open>
  Characters that a \<^verbatim>\<open>WORD\<close>, \<^verbatim>\<open>SPACE\<close> or \<^verbatim>\<open>CLONE\<close> match
  is made of, and characters that no match other than \<^verbatim>\<open>ARGS\<close> and
  \<^verbatim>\<open>MISMATCH\<close> can contain.
\<close>

definition plain_char :: "char \<Rightarrow> bool" where
  "plain_char c = (is_word_char c \<or> c = CHR ''.'' \<or> c = CHR '' '' \<or> c = CHR ''='')"




section \<open>Version strings (libclinic/version.py)\<close>

text \<open>
  \<^verbatim>\<open>str.isdigit\<close> on the code points below 256 holds of the ASCII digits and
  of the superscripts U+00B2, U+00B3 and U+00B9. \<^verbatim>\<open>int\<close> reads ASCII digits
  only, so it raises \<^verbatim>\<open>ValueError\<close> on a superscript; with the interpreter's
  default settings it also raises \<^verbatim>\<open>ValueError\<close> on more than 4300 digits
  (the message of that error is abbreviated here).
\<close>

definition isdigit :: "char \<Rightarrow> bool" where
  "isdigit c =
     (let n = (of_char c :: nat) in (48 \<le> n \<and> n \<le> 57) \<or> n = 178 \<or> n = 179 \<or> n = 185)"

definition is_decimal :: "char \<Rightarrow> bool" where
  "is_decimal c = (let n = (of_char c :: nat) in 48 \<le> n \<and> n \<le> 57)"

definition digit_value :: "char \<Rightarrow> int" where
  "digit_value c = int (of_char c) - 48"

definition int_max_str_digits :: nat where
  "int_max_str_digits = 4300"

definition py_int :: "string \<Rightarrow> exn + int" where
  "py_int ds =
     (if ds = [] \<or> \<not> list_all is_decimal ds
      then Inl (Exn ValueError [Str ''invalid literal for int() with base 10: '', Repr ds])
      else if length ds > int_max_str_digits
      then Inl (Exn ValueError [Str ''Exceeds the limit (4300 digits) for integer string conversion''])
      else Inr (foldl (\<lambda>n c. 10 * n + digit_value c) 0 ds))"

text \<open>
  The state of \<^verbatim>\<open>_version_splitter\<close> is the pair of the lists
  \<^verbatim>\<open>version\<close> and \<^verbatim>\<open>accumulator\<close>; the inner function
  \<^verbatim>\<open>flush\<close> updates both or raises.
\<close>

definition flush :: "string \<Rightarrow> int list \<times> string \<Rightarrow> exn + int list \<times> string" where
  "flush s st =
     (case st of (version, accumulator) \<Rightarrow>
        if accumulator = []
        then Inl (Exn ParseVersionError [Str ''Unsupported version string: '', Repr s])
        else (case py_int accumulator of
                Inl e \<Rightarrow> Inl e
              | Inr n \<Rightarrow> Inr (version @ [n], [])))"

text \<open>\<^verbatim>\<open>'abc'.index(c)\<close>, for \<open>c\<close> one of the three letters.\<close>

definition abc_index :: "char \<Rightarrow> int" where
  "abc_index c = (if c = CHR ''a'' then 0 else if c = CHR ''b'' then 1 else 2)"

fun splitter_loop :: "string \<Rightarrow> string \<Rightarrow> int list \<times> string \<Rightarrow> exn + int list \<times> string" where
  "splitter_loop s [] st = Inr st"
| "splitter_loop s (c # cs) (version, accumulator) =
     (if isdigit c then splitter_loop s cs (version, accumulator @ [c])
      else if c = CHR ''.'' then
        (case flush s (version, accumulator) of
           Inl e \<Rightarrow> Inl e
         | Inr st \<Rightarrow> splitter_loop s cs st)
      else if c \<in> set ''abc'' then
        (case flush s (version, accumulator) of
           Inl e \<Rightarrow> Inl e
         | Inr (version', accumulator') \<Rightarrow>
             splitter_loop s cs (version' @ [abc_index c - 3], accumulator'))
      else Inl (Exn ParseVersionError
                 [Str ''Illegal character '', Repr [c], Str '' in version string '', Repr s]))"

definition version_splitter :: "string \<Rightarrow> exn + int list" where
  "version_splitter s =
     (case splitter_loop s s ([], []) of
        Inl e \<Rightarrow> Inl e
      | Inr st \<Rightarrow> (case flush s st of Inl e \<Rightarrow> Inl e | Inr (version, accumulator) \<Rightarrow> Inr version))"

text \<open>
  \<^verbatim>\<open>itertools.zip_longest\<close> with a fill value, and the comparison loop over
  its pairs. Both arguments of \<^verbatim>\<open>zip_longest\<close> are evaluated before the loop,
  the first version string first.
\<close>

fun zip_longest :: "int list \<Rightarrow> int list \<Rightarrow> int \<Rightarrow> (int \<times> int) list" where
  "zip_longest [] [] fillvalue = []"
| "zip_longest (a # as) [] fillvalue = (a, fillvalue) # zip_longest as [] fillvalue"
| "zip_longest [] (b # bs) fillvalue = (fillvalue, b) # zip_longest [] bs fillvalue"
| "zip_longest (a # as) (b # bs) fillvalue = (a, b) # zip_longest as bs fillvalue"

fun comparator_loop :: "(int \<times> int) list \<Rightarrow> int" where
  "comparator_loop [] = 0"
| "comparator_loop ((a, b) # iterator) =
     (if a < b then -1 else if a > b then 1 else comparator_loop iterator)"

definition version_comparator :: "string \<Rightarrow> string \<Rightarrow> exn + int" where
  "version_comparator version1 version2 =
     (case version_splitter version1 of
        Inl e \<Rightarrow> Inl e
      | Inr v1 \<Rightarrow>
          (case version_splitter version2 of
             Inl e \<Rightarrow> Inl e
           | Inr v2 \<Rightarrow> Inr (comparator_loop (zip_longest v1 v2 0))))"

section \<open>Command line driver (libclinic/cli.py)\<close>

text \<open>
  The language object built for a file: \<^verbatim>\<open>CLanguage(filename)\<close> or
  \<^verbatim>\<open>PythonLanguage(filename)\<close>. The dictionary \<^verbatim>\<open>extensions\<close> maps a file
  extension to the class to call.
\<close>

datatype language = CLanguage string | PythonLanguage string

definition extensions :: "string \<rightharpoonup> (string \<Rightarrow> language)" where
  "extensions =
     (map_of (map (\<lambda>name. (name, CLanguage))
        [''c'', ''cc'', ''cpp'', ''cxx'', ''h'', ''hh'', ''hpp'', ''hxx'']))
     (''py'' \<mapsto> PythonLanguage)"

text \<open>
  \<^verbatim>\<open>os.path.splitext\<close> of the POSIX path module: the extension starts at the last
  dot of the last path component, unless only dots precede it there.
  \<^verbatim>\<open>str.rfind\<close> returns \<open>-1\<close> when the character does not occur.
\<close>

definition rfind :: "string \<Rightarrow> char \<Rightarrow> int" where
  "rfind p c =
     (if c \<in> set p
      then int (length p) - 1 - int (length (takeWhile (\<lambda>x. x \<noteq> c) (rev p)))
      else - 1)"

definition splitext :: "string \<Rightarrow> string \<times> string" where
  "splitext p =
     (let sepIndex = rfind p (CHR ''/'');
          dotIndex = rfind p (CHR ''.'')
      in if dotIndex > sepIndex \<and>
            \<not> list_all (\<lambda>x. x = CHR ''.'')
                 (take (nat dotIndex - nat (sepIndex + 1)) (drop (nat (sepIndex + 1)) p))
         then (take (nat dotIndex) p, drop (nat dotIndex) p)
         else (p, []))"

text \<open>
  \<^verbatim>\<open>LIMITED_CAPI_REGEX.search\<close>: somewhere in the text, \<^verbatim>\<open>#define\<close>, one or
  more spaces, \<^verbatim>\<open>Py_LIMITED_API\<close>.
\<close>

fun tails :: "'a list \<Rightarrow> 'a list list" where
  "tails [] = [[]]"
| "tails (x # xs) = (x # xs) # tails xs"

definition LIMITED_CAPI_REGEX_search :: "string \<Rightarrow> bool" where
  "LIMITED_CAPI_REGEX_search raw =
     list_ex (\<lambda>t. take 7 t = ''#define'' \<and> take 1 (drop 7 t) = '' '' \<and>
                  take 14 (dropWhile (\<lambda>x. x = CHR '' '') (drop 7 t)) = ''Py_LIMITED_API'')
       (tails raw)"

text \<open>
  What the driver acts on: the files, by path, and the text written to the error
  stream.
\<close>

record world =
  files :: "string \<rightharpoonup> string"
  stderr :: string

text \<open>
  \<^verbatim>\<open>parse_file\<close>. Three collaborators are declared outside these sources and are
  parameters here: \<open>find_start language raw\<close> tells whether
  \<^verbatim>\<open>BlockParser("", language).find_start_re.search(raw)\<close> finds a start marker;
  \<open>clinic_parse language verify filename limited_capi raw\<close> is
  \<^verbatim>\<open>Clinic(language, verify=..., filename=..., limited_capi=...).parse(raw)\<close>; and
  \<open>write_file output cooked\<close> is \<^verbatim>\<open>libclinic.write_file\<close>. The last two may act
  on the world and may raise. Opening a file that does not exist raises
  \<^verbatim>\<open>OSError\<close>.
\<close>

definition parse_file ::
  "(language \<Rightarrow> string \<Rightarrow> bool) \<Rightarrow>
   (language \<Rightarrow> bool \<Rightarrow> string \<Rightarrow> bool \<Rightarrow> string \<Rightarrow> world \<Rightarrow> (exn + string) \<times> world) \<Rightarrow>
   (string \<Rightarrow> string \<Rightarrow> world \<Rightarrow> (exn + unit) \<times> world) \<Rightarrow>
   string \<Rightarrow> bool \<Rightarrow> string option \<Rightarrow> bool \<Rightarrow> world \<Rightarrow> (exn + unit) \<times> world" where
  "parse_file find_start clinic_parse write_file filename limited_capi output verify w =
     (let output' = (case output of
                       None \<Rightarrow> filename
                     | Some out \<Rightarrow> if out = [] then filename else out);
          extension = drop 1 (snd (splitext filename))
      in if extension = []
         then (Inl (Exn ClinicError
                 [Str ''Can't extract file type for file '', Repr filename]), w)
         else
           (case extensions extension of
              None \<Rightarrow>
                (Inl (Exn ClinicError
                   [Str ''Can't identify file type for file '', Repr filename]), w)
            | Some make_language \<Rightarrow>
                (let language = make_language filename in
                 case files w filename of
                   None \<Rightarrow> (Inl (Exn OSError [Str ''No such file or directory: '', Repr filename]), w)
                 | Some raw \<Rightarrow>
                     if \<not> find_start language raw then (Inr (), w)
                     else
                       (let limited_capi' =
                              (if LIMITED_CAPI_REGEX_search raw then True else limited_capi)
                        in case language of
                             PythonLanguage f \<Rightarrow> (Inl (Exn AssertionError []), w)
                           | CLanguage f \<Rightarrow>
                               (case clinic_parse language verify filename limited_capi' raw w of
                                  (Inl e, w1) \<Rightarrow> (Inl e, w1)
                                | (Inr cooked, w1) \<Rightarrow> write_file output' cooked w1)))))"






definition sample_find_start :: "language \<Rightarrow> string \<Rightarrow> bool" where
  "sample_find_start language raw = list_ex (\<lambda>t. take 3 t = ''/*['') (tails raw)"

definition sample_clinic_parse ::
  "language \<Rightarrow> bool \<Rightarrow> string \<Rightarrow> bool \<Rightarrow> string \<Rightarrow> world \<Rightarrow> (exn + string) \<times> world" where
  "sample_clinic_parse language verify filename limited_capi raw w = (Inr raw, w)"

definition sample_write_file :: "string \<Rightarrow> string \<Rightarrow> world \<Rightarrow> (exn + unit) \<times> world" where
  "sample_write_file output cooked w = (Inr (), w\<lparr>files := (files w)(output \<mapsto> cooked)\<rparr>)"

definition sample_world :: world where
  "sample_world = \<lparr>files = [''foo.c'' \<mapsto> ''int x;''], stderr = []\<rparr>"

definition sample_world_noext :: world where
  "sample_world_noext = \<lparr>files = [''Makefile'' \<mapsto> ''all:''], stderr = []\<rparr>"

section \<open>Properties of the option groups\<close>

lemma left_loop_eq:
  "left_loop gs acc = map (\<lambda>k. concat (rev (take k gs)) @ acc) [1..<Suc (length gs)]"
proof (induction gs arbitrary: acc)
  case Nil thus ?case by simp
next
  case (Cons g gs)
  have "[1..<Suc (length (g # gs))] = 1 # map Suc [1..<Suc (length gs)]"
    by (simp add: upt_conv_Cons map_Suc_upt del: upt_Suc)
  thus ?case using Cons by (simp add: comp_def del: upt_Suc)
qed

lemma permute_left_eq:
  "permute_left_option_groups l = map (\<lambda>k. concat (drop (length l - k) l)) [0..<Suc (length l)]"
proof -
  have "[0..<Suc (length l)] = 0 # [1..<Suc (length l)]"
    by (simp add: upt_conv_Cons del: upt_Suc)
  moreover have "\<And>k. rev (take k (rev l)) = drop (length l - k) l"
    by (simp add: take_rev)
  ultimately show ?thesis
    by (simp add: permute_left_option_groups_def left_loop_eq del: upt_Suc)
qed

lemma right_loop_eq:
  "right_loop gs acc = map (\<lambda>k. acc @ concat (take k gs)) [1..<Suc (length gs)]"
proof (induction gs arbitrary: acc)
  case Nil thus ?case by simp
next
  case (Cons g gs)
  have "[1..<Suc (length (g # gs))] = 1 # map Suc [1..<Suc (length gs)]"
    by (simp add: upt_conv_Cons map_Suc_upt del: upt_Suc)
  thus ?case using Cons by (simp add: comp_def del: upt_Suc)
qed

lemma permute_right_eq:
  "permute_right_option_groups l = map (\<lambda>k. concat (take k l)) [0..<Suc (length l)]"
proof -
  have "[0..<Suc (length l)] = 0 # [1..<Suc (length l)]"
    by (simp add: upt_conv_Cons del: upt_Suc)
  thus ?thesis
    by (simp add: permute_right_option_groups_def right_loop_eq del: upt_Suc)
qed

lemma keep_first_append: "keep_first acc (xs @ ys) = keep_first (keep_first acc xs) ys"
  by (induction xs arbitrary: acc) simp_all

lemma inner_loop_keep_first:
  "counts = length ` set acc \<Longrightarrow>
   inner_loop required r ls (acc, counts) =
     (keep_first acc (map (\<lambda>l. l @ required @ r) ls),
      length ` set (keep_first acc (map (\<lambda>l. l @ required @ r) ls)))"
proof (induction ls arbitrary: acc counts)
  case Nil thus ?case by simp
next
  case (Cons l ls)
  show ?case
  proof (cases "length (l @ required @ r) \<in> counts")
    case True
    thus ?thesis using Cons.IH[of counts acc] Cons.prems by (simp add: Let_def)
  next
    case False
    have "insert (length (l @ required @ r)) counts = length ` set (acc @ [l @ required @ r])"
      using Cons.prems by auto
    from Cons.IH[OF this] False Cons.prems show ?thesis by (simp add: Let_def)
  qed
qed

lemma outer_loop_keep_first:
  "counts = length ` set acc \<Longrightarrow>
   fst (outer_loop left required rs (acc, counts)) =
     keep_first acc (concat (map (\<lambda>r. map (\<lambda>l. l @ required @ r) (permute_left_option_groups left)) rs))"
proof (induction rs arbitrary: acc counts)
  case Nil thus ?case by simp
next
  case (Cons r rs)
  show ?case
    using Cons.IH[of "length ` set (keep_first acc (map (\<lambda>l. l @ required @ r) (permute_left_option_groups left)))"
                     "keep_first acc (map (\<lambda>l. l @ required @ r) (permute_left_option_groups left))"]
    by (simp add: inner_loop_keep_first[OF Cons.prems] keep_first_append)
qed

lemma visits_eq:
  "concat (map (\<lambda>r. map (\<lambda>l. l @ required @ r) (permute_left_option_groups left))
               (permute_right_option_groups right)) = visit_order left required right"
  by (simp add: visit_order_def permute_left_eq permute_right_eq comp_def del: upt_Suc)

lemma keep_first_set: "set (keep_first acc vs) \<subseteq> set acc \<union> set vs"
proof (induction vs arbitrary: acc)
  case Nil thus ?case by simp
next
  case (Cons t ts)
  show ?case using Cons.IH[of acc] Cons.IH[of "acc @ [t]"] by auto
qed

lemma keep_first_lengths: "length ` set (keep_first acc vs) = length ` (set acc \<union> set vs)"
proof (induction vs arbitrary: acc)
  case Nil thus ?case by simp
next
  case (Cons t ts)
  show ?case using Cons.IH[of acc] Cons.IH[of "acc @ [t]"] by auto
qed

lemma keep_first_distinct:
  "distinct (map length acc) \<Longrightarrow> distinct (map length (keep_first acc vs))"
proof (induction vs arbitrary: acc)
  case Nil thus ?case by simp
next
  case (Cons t ts)
  show ?case using Cons.IH[of acc] Cons.IH[of "acc @ [t]"] Cons.prems by auto
qed

lemma keep_first_find:
  "t \<in> set (keep_first acc vs) \<Longrightarrow> t \<notin> set acc \<Longrightarrow>
   find (\<lambda>u. length u = length t) vs = Some t \<and> length t \<notin> length ` set acc"
proof (induction vs arbitrary: acc)
  case Nil thus ?case by simp
next
  case (Cons v vs)
  show ?case
  proof (cases "length v \<in> length ` set acc")
    case True
    with Cons.prems have "t \<in> set (keep_first acc vs)" by simp
    from Cons.IH[OF this Cons.prems(2)] True show ?thesis by auto
  next
    case False
    with Cons.prems have mem: "t \<in> set (keep_first (acc @ [v]) vs)" by simp
    show ?thesis
    proof (cases "t = v")
      case True thus ?thesis using False by simp
    next
      case neq: False
      with Cons.prems(2) have "t \<notin> set (acc @ [v])" by simp
      from Cons.IH[OF mem this] show ?thesis by auto
    qed
  qed
qed

lemma visit_order_form:
  "t \<in> set (visit_order left required right) \<Longrightarrow>
   \<exists>i j. i \<le> length left \<and> j \<le> length right \<and>
         t = concat (drop i left) @ required @ concat (take j right)"
  unfolding visit_order_def
  by (auto simp del: upt_Suc) (metis diff_le_self less_Suc_eq_le)+

lemma permute_optional_groups_result:
  "\<not> (required = [] \<and> left \<noteq> []) \<Longrightarrow>
   permute_optional_groups left required right =
     Inr (sort_key length (keep_first [] (visit_order left required right)))"
  unfolding permute_optional_groups_def
  using outer_loop_keep_first[of "{}" "[]" left required "permute_right_option_groups right"]
  by (simp only: visits_eq) simp

text \<open>
  Claim C3. For every sequence of groups, \<^verbatim>\<open>permute_left_option_groups\<close> yields
  the empty tuple first and then, for \<open>k = 1, 2, ...\<close> up to the number of groups, the
  concatenation of the last \<open>k\<close> groups: each step prepends the next group from the
  end of the list backward. For \<^verbatim>\<open>[(1,), (2,), (3,)]\<close> it yields
  \<^verbatim>\<open>(), (3,), (2, 3), (1, 2, 3)\<close>.
\<close>

theorem permute_left_option_groups_yields:
  "permute_left_option_groups l =
     [] # map (\<lambda>k. concat (drop (length l - k) l)) [1..<Suc (length l)]
   \<and> permute_left_option_groups [[1::int], [2], [3]] = [[], [3], [2, 3], [1, 2, 3]]"
proof -
  have "[0..<Suc (length l)] = 0 # [1..<Suc (length l)]"
    by (simp add: upt_conv_Cons del: upt_Suc)
  hence "permute_left_option_groups l =
     [] # map (\<lambda>k. concat (drop (length l - k) l)) [1..<Suc (length l)]"
    by (simp add: permute_left_eq del: upt_Suc)
  moreover have "permute_left_option_groups [[1::int], [2], [3]] = [[], [3], [2, 3], [1, 2, 3]]"
    by (simp add: permute_left_option_groups_def)
  ultimately show ?thesis by blast
qed

text \<open>
  Claim C10. With no optional group on either side, \<^verbatim>\<open>permute_optional_groups\<close>
  succeeds and returns the one-element tuple holding the required parameters; with
  all three arguments empty it returns \<^verbatim>\<open>((),)\<close>.
\<close>

theorem permute_optional_groups_required_only:
  "permute_optional_groups [] required [] = Inr [required]
   \<and> permute_optional_groups [] [] [] = Inr [[]]"
  by (simp add: permute_optional_groups_def permute_right_option_groups_def
        permute_left_option_groups_def)

text \<open>
  Claim C2. \<^verbatim>\<open>permute_optional_groups\<close> raises its error (a
  \<^verbatim>\<open>ValueError\<close>) when the required list is empty and the left group list is
  not, as for \<^verbatim>\<open>([[1],[2],[3]], [], [[4],[5],[6]])\<close>; in every other case it
  returns normally.
\<close>

theorem permute_optional_groups_error_iff:
  "(required = [] \<and> left \<noteq> [] \<longrightarrow>
      permute_optional_groups left required right =
        Inl (Exn ValueError [Str ''required is empty but left is not'']))
   \<and> (\<not> (required = [] \<and> left \<noteq> []) \<longrightarrow>
      (\<exists>res. permute_optional_groups left required right = Inr res))
   \<and> permute_optional_groups [[1::int], [2], [3]] [] [[4], [5], [6]] =
        Inl (Exn ValueError [Str ''required is empty but left is not''])"
  by (simp add: permute_optional_groups_def)

theorem permute_optional_groups_error_iff_witness:
  "permute_optional_groups [[1::int]] [] [[4]] =
        Inl (Exn ValueError [Str ''required is empty but left is not''])
   \<and> (\<exists>res. permute_optional_groups [[1::int]] [7] [[4]] = Inr res)"
  using permute_optional_groups_error_iff[of "[]" "[[1::int]]" "[[4]]"]
        permute_optional_groups_error_iff[of "[7::int]" "[[1]]" "[[4]]"]
  by simp

text \<open>
  Claim C1. When the arguments are accepted (not: required empty and left non-empty),
  \<^verbatim>\<open>permute_optional_groups\<close> returns a tuple of tuples whose lengths are
  strictly ascending (sorted by length, one tuple per length), the lengths being
  exactly the total lengths of the visited combinations; each element is a
  concatenation of a suffix of the left groups, the required parameters and a prefix
  of the right groups; and each element is the first combination of its length in the
  visiting order (right permutations ascending, left permutations ascending within
  each). \<^verbatim>\<open>permute_optional_groups([], [10], [[20],[30]])\<close> returns
  \<^verbatim>\<open>((10,), (10,20), (10,20,30))\<close>.
\<close>

theorem permute_optional_groups_variants:
  "(\<not> (required = [] \<and> left \<noteq> []) \<longrightarrow>
     (\<exists>res. permute_optional_groups left required right = Inr res
       \<and> sorted_wrt (<) (map length res)
       \<and> set (map length res) = set (map length (visit_order left required right))
       \<and> (\<forall>t \<in> set res. \<exists>i j. i \<le> length left \<and> j \<le> length right \<and>
              t = concat (drop i left) @ required @ concat (take j right))
       \<and> (\<forall>t \<in> set res.
              find (\<lambda>u. length u = length t) (visit_order left required right) = Some t)))
   \<and> permute_optional_groups [] [10::int] [[20], [30]] = Inr [[10], [10, 20], [10, 20, 30]]"
proof (intro conjI impI)
  assume ok: "\<not> (required = [] \<and> left \<noteq> [])"
  let ?vs = "visit_order left required right"
  let ?res = "sort_key length (keep_first [] ?vs)"
  have res: "permute_optional_groups left required right = Inr ?res"
    by (rule permute_optional_groups_result[OF ok])
  have set_res: "set ?res = set (keep_first [] ?vs)" by simp
  have "distinct (map length (keep_first [] ?vs))"
    by (rule keep_first_distinct) simp
  hence "distinct (map length ?res)"
    by (metis distinct_map distinct_sort set_sort)
  moreover have "sorted (map length ?res)" by (rule sorted_sort_key)
  ultimately have strict: "sorted_wrt (<) (map length ?res)"
    by (simp add: strict_sorted_iff)
  have lens: "set (map length ?res) = set (map length ?vs)"
    using keep_first_lengths[of "[]" ?vs] by simp
  have form: "\<forall>t \<in> set ?res. \<exists>i j. i \<le> length left \<and> j \<le> length right \<and>
            t = concat (drop i left) @ required @ concat (take j right)"
    using keep_first_set[of "[]" ?vs] visit_order_form[of _ left required right]
    unfolding set_res by auto
  have first: "\<forall>t \<in> set ?res. find (\<lambda>u. length u = length t) ?vs = Some t"
    using keep_first_find[of _ "[]" ?vs] unfolding set_res by simp
  from res strict lens form first
  show "\<exists>res. permute_optional_groups left required right = Inr res
     \<and> sorted_wrt (<) (map length res)
     \<and> set (map length res) = set (map length (visit_order left required right))
     \<and> (\<forall>t \<in> set res. \<exists>i j. i \<le> length left \<and> j \<le> length right \<and>
            t = concat (drop i left) @ required @ concat (take j right))
     \<and> (\<forall>t \<in> set res.
            find (\<lambda>u. length u = length t) (visit_order left required right) = Some t)"
    by blast
next
  show "permute_optional_groups [] [10::int] [[20], [30]] = Inr [[10], [10, 20], [10, 20, 30]]"
    by (simp add: permute_optional_groups_def permute_right_option_groups_def
        permute_left_option_groups_def)
qed

theorem permute_optional_groups_variants_witness:
  "\<exists>res. permute_optional_groups [[1], [2, 3]] [0::int] [[4]] = Inr res
     \<and> sorted_wrt (<) (map length res)
     \<and> set (map length res) = set (map length (visit_order [[1], [2, 3]] [0::int] [[4]]))"
proof -
  have h: "\<not> ([0::int] = [] \<and> [[1], [2, 3::int]] \<noteq> [])" by simp
  from permute_optional_groups_variants[of "[0::int]" "[[1], [2, 3]]" "[[4]]"] h
  show ?thesis by blast
qed

section \<open>Properties of the lexer\<close>



















lemma finditer_Nil [simp]: "finditer [] = []"
  by (simp add: finditer.simps)








lemma plain_char_simps [simp]:
  "\<not> plain_char newline" "\<not> plain_char (CHR ''-'')" "\<not> plain_char (CHR ''('')"
  by (simp_all add: plain_char_def is_word_char_def newline_def)











lemma is_word_char_newline: "\<not> is_word_char newline"
  by (simp add: is_word_char_def newline_def)







text \<open>
  Claim C4. Tokenizing \<^verbatim>\<open>foo(bar)->baz=1\<close> raises nothing and yields the six
  tokens WORD \<open>foo\<close>, ARGS \<open>(bar)\<close>, ARROW \<open>->\<close>, WORD \<open>baz\<close>, CLONE \<open>=\<close>,
  WORD \<open>1\<close>, in this order, with no SPACE token.
\<close>

theorem tokenize_example:
  "tokenize ''foo(bar)->baz=1'' =
     ([Token ''WORD'' ''foo'', Token ''ARGS'' ''(bar)'', Token ''ARROW'' ''->'',
       Token ''WORD'' ''baz'', Token ''CLONE'' ''='', Token ''WORD'' ''1''], None)"
  by code_simp




text \<open>
  After an ARGS and an ARROW token the error still names the character at which the
  scan stops, here \<open>#\<close>, and the tokens before it are yielded.
\<close>

lemma tokenize_after_args_example:
  "tokenize ''f(x) -> y #'' =
     ([Token ''WORD'' ''f'', Token ''ARGS'' ''(x)'', Token ''ARROW'' ''->'', Token ''WORD'' ''y''],
      Some (Exn ParseError [Repr ''#'', Str '' stray character in input'']))"
  by code_simp

section \<open>Properties of the version comparator\<close>

lemma zip_longest_swap: "zip_longest ys xs f = map prod.swap (zip_longest xs ys f)"
  by (induction xs ys f rule: zip_longest.induct) simp_all

lemma comparator_loop_swap: "comparator_loop (map prod.swap ps) = - comparator_loop ps"
  by (induction ps rule: comparator_loop.induct) simp_all

lemma zip_longest_same: "comparator_loop (zip_longest xs xs f) = 0"
  by (induction xs) simp_all

text \<open>
  Claim C6. The splitter turns \<^verbatim>\<open>"1.4b3"\<close> into \<^verbatim>\<open>(1, 4, -2, 3)\<close> (the
  letter \<open>b\<close> becomes the extra component \<open>-2\<close> before the next number) and
  \<^verbatim>\<open>"1.4.0"\<close> into \<^verbatim>\<open>(1, 4, 0)\<close>; the shorter tuple is padded with
  zeros, and the comparator returns \<open>-1\<close>, decided at the third pair, \<open>-2\<close>
  against \<open>0\<close>.
\<close>

theorem version_comparator_example:
  "version_splitter ''1.4b3'' = Inr [1, 4, -2, 3]
   \<and> version_splitter ''1.4.0'' = Inr [1, 4, 0]
   \<and> zip_longest [1, 4, -2, 3] [1, 4, 0] 0 = [(1, 1), (4, 4), (-2, 0), (3, 0)]
   \<and> version_comparator ''1.4b3'' ''1.4.0'' = Inr (-1)
   \<and> version_splitter ''1a2'' = Inr [1, -3, 2]
   \<and> version_splitter ''1c2'' = Inr [1, -1, 2]"
  by (simp add: version_comparator_def version_splitter_def flush_def py_int_def isdigit_def
      is_decimal_def digit_value_def int_max_str_digits_def abc_index_def)

text \<open>
  Claim C9. For version strings that both parse, swapping the arguments of the
  comparator negates its result, and comparing a version string with itself gives 0.
\<close>

theorem version_comparator_antisym:
  "version_splitter v1 = Inr t1 \<and> version_splitter v2 = Inr t2 \<longrightarrow>
     (\<exists>x. version_comparator v1 v2 = Inr x \<and> version_comparator v2 v1 = Inr (- x))
     \<and> version_comparator v1 v1 = Inr 0"
  by (auto simp: version_comparator_def zip_longest_swap[of t2 t1] comparator_loop_swap
      zip_longest_same)

theorem version_comparator_antisym_witness:
  "(\<exists>x. version_comparator ''1.4b3'' ''1.4.0'' = Inr x
       \<and> version_comparator ''1.4.0'' ''1.4b3'' = Inr (- x))
   \<and> version_comparator ''1.4b3'' ''1.4b3'' = Inr 0"
proof -
  have "version_splitter ''1.4b3'' = Inr [1, 4, -2, 3] \<and> version_splitter ''1.4.0'' = Inr [1, 4, 0]"
    by (simp add: version_splitter_def flush_def py_int_def isdigit_def
      is_decimal_def digit_value_def int_max_str_digits_def abc_index_def)
  with version_comparator_antisym[of "''1.4b3''" "[1, 4, -2, 3]" "''1.4.0''" "[1, 4, 0]"] show ?thesis by blast
qed

section \<open>Properties of the command line driver\<close>

lemma extensions_Nil: "extensions [] = None"
  by (simp add: extensions_def)

text \<open>
  Claim C8, as stated, fails: \<^verbatim>\<open>parse_file\<close> checks the file extension before
  it reads the file. The file \<^verbatim>\<open>Makefile\<close> holds no start marker of either
  language, yet processing it does not return: it raises \<^verbatim>\<open>ClinicError\<close>
  (the world is unchanged).
\<close>

theorem parse_file_no_extension_raises:
  "files sample_world_noext ''Makefile'' = Some ''all:''
   \<and> \<not> sample_find_start (CLanguage ''Makefile'') ''all:''
   \<and> \<not> sample_find_start (PythonLanguage ''Makefile'') ''all:''
   \<and> parse_file sample_find_start sample_clinic_parse sample_write_file
         ''Makefile'' False None True sample_world_noext
       = (Inl (Exn ClinicError [Str ''Can't extract file type for file '', Repr ''Makefile'']),
          sample_world_noext)"
  by (simp add: parse_file_def splitext_def rfind_def Let_def sample_world_noext_def
      sample_find_start_def)

text \<open>
  Claim C8, amended. A readable file with a supported extension (one of
  \<^verbatim>\<open>c cc cpp cxx h hh hpp hxx py\<close>) whose text holds no start marker of that
  extension's language is processed by returning at once: \<^verbatim>\<open>parse_file\<close>
  returns normally and the world is as before, whatever the parser and the writer
  would do. For every file name, if the text holds no start marker of any language,
  the world is unchanged. With an extension that is empty or not supported,
  \<^verbatim>\<open>parse_file\<close> raises \<^verbatim>\<open>ClinicError\<close> and the world is unchanged.
\<close>

theorem parse_file_no_start_marker:
  "(files w filename = Some raw
      \<and> extensions (drop 1 (snd (splitext filename))) = Some make_language
      \<and> \<not> find_start (make_language filename) raw \<longrightarrow>
    parse_file find_start clinic_parse write_file filename limited_capi output verify w
      = (Inr (), w))
   \<and> (files w filename = Some raw \<and> (\<forall>language. \<not> find_start language raw) \<longrightarrow>
    snd (parse_file find_start clinic_parse write_file filename limited_capi output verify w)
      = w)
   \<and> (extensions (drop 1 (snd (splitext filename))) = None \<longrightarrow>
    (\<exists>m. parse_file find_start clinic_parse write_file filename limited_capi output verify w
      = (Inl (Exn ClinicError m), w)))
   \<and> dom extensions =
        {''c'', ''cc'', ''cpp'', ''cxx'', ''h'', ''hh'', ''hpp'', ''hxx'', ''py''}"
proof (intro conjI impI)
  assume a: "files w filename = Some raw
      \<and> extensions (drop 1 (snd (splitext filename))) = Some make_language
      \<and> \<not> find_start (make_language filename) raw"
  hence "drop 1 (snd (splitext filename)) \<noteq> []" using extensions_Nil by auto
  with a show "parse_file find_start clinic_parse write_file filename limited_capi output verify w
      = (Inr (), w)"
    by (simp add: parse_file_def Let_def)
next
  assume a: "files w filename = Some raw \<and> (\<forall>language. \<not> find_start language raw)"
  thus "snd (parse_file find_start clinic_parse write_file filename limited_capi output verify w)
      = w"
    by (simp add: parse_file_def Let_def split: option.splits)
next
  assume "extensions (drop 1 (snd (splitext filename))) = None"
  thus "\<exists>m. parse_file find_start clinic_parse write_file filename limited_capi output verify w
      = (Inl (Exn ClinicError m), w)"
    by (simp add: parse_file_def Let_def)
next
  show "dom extensions =
        {''c'', ''cc'', ''cpp'', ''cxx'', ''h'', ''hh'', ''hpp'', ''hxx'', ''py''}"
    by (auto simp: extensions_def dom_def split: if_splits)
qed

theorem parse_file_no_start_marker_witness:
  "parse_file sample_find_start sample_clinic_parse sample_write_file
     ''foo.c'' False None True sample_world = (Inr (), sample_world)"
proof -
  have f: "files sample_world ''foo.c'' = Some ''int x;''"
    by (simp add: sample_world_def)
  have e: "extensions (drop 1 (snd (splitext ''foo.c''))) = Some CLanguage"
    by (simp add: extensions_def splitext_def rfind_def Let_def)
  have n: "\<not> sample_find_start (CLanguage ''foo.c'') ''int x;''"
    by (simp add: sample_find_start_def)
  from parse_file_no_start_marker[of sample_world "''foo.c''" "''int x;''" CLanguage
      sample_find_start sample_clinic_parse sample_write_file False None True] f e n
  show ?thesis by blast
qed

text \<open>
  With a start marker in the text the same call does write: the fast path is what
  keeps the file untouched.
\<close>

lemma parse_file_marker_writes:
  "parse_file sample_find_start sample_clinic_parse sample_write_file
     ''foo.c'' False None True \<lparr>files = [''foo.c'' \<mapsto> ''/*[x''], stderr = []\<rparr>
   = (Inr (), \<lparr>files = [''foo.c'' \<mapsto> ''/*[x''], stderr = []\<rparr>
                \<lparr>files := [''foo.c'' \<mapsto> ''/*[x''](''foo.c'' \<mapsto> ''/*[x'')\<rparr>)"
  by (simp add: parse_file_def extensions_def splitext_def rfind_def Let_def
      sample_find_start_def sample_clinic_parse_def sample_write_file_def
      LIMITED_CAPI_REGEX_search_def)




end
